theory Spec2Isabelle
  imports Main "HOL-Library.Word"
begin

section \<open>PNG creation with libpng: data model\<close>

text \<open>
  The module \<^verbatim>\<open>png_create.pyx\<close> turns an RGBA image matrix into the bytes of a PNG
  file. The pixel compression itself is done by libpng, which is linked in and is not part
  of the module: here it is a parameter (\<open>externals\<close>), a family of functions from what
  the module hands to the library to what the library answers. The ways a call fails are
  values of \<open>py_error\<close>. Every function returns, next to its result, the list of calls it
  made into the library, in the order it made them.
\<close>

type_synonym byte = "8 word"

datatype CompressionMethod = COMPR_NONE | COMPR_DEFAULT | COMPR_GREEDY | COMPR_AGGRESSIVE

fun CompressionMethod_value :: "CompressionMethod \<Rightarrow> int" where
  "CompressionMethod_value COMPR_NONE = 0x00"
| "CompressionMethod_value COMPR_DEFAULT = 0x01"
| "CompressionMethod_value COMPR_GREEDY = 0x02"
| "CompressionMethod_value COMPR_AGGRESSIVE = 0x04"

text \<open>
  \<open>compr_method\<close> is an untyped Python argument: callers pass a member of the enum, but
  nothing stops them from passing another object (the plain integer \<open>2\<close>, \<open>None\<close>).
\<close>

datatype py_object = Enum_member CompressionMethod | Py_int int | Py_None

record greedy_replay_param =
  compr_lvl :: byte
  mem_lvl :: byte
  strat :: byte
  filters :: byte

text \<open>
  The image argument is a C-contiguous three-dimensional \<^verbatim>\<open>numpy.uint8\<close> array (the typed
  argument of \<open>save\<close> admits nothing else): its shape, its flat buffer, whose length is
  \<open>shape0 * shape1 * shape2\<close> for every array numpy builds, and its \<^verbatim>\<open>writeable\<close> flag.
\<close>

record ndarray =
  shape0 :: nat
  shape1 :: nat
  shape2 :: nat
  buffer :: "byte list"
  writeable :: bool

text \<open>
  The ways a call ends without a result. The first three are Python exceptions.
  \<open>Unchecked_read\<close> is none: \<open>save\<close> is compiled with bounds checks off, so indexing
  a tuple past its end reads whatever lies behind it. What the process does then is not
  defined; the model ends the call there and says nothing more about it.
\<close>

datatype py_error = MemoryError string | ValueError | OverflowError | Unchecked_read

subsection \<open>Constants\<close>

definition PNG_IMAGE_VERSION :: int where "PNG_IMAGE_VERSION = 1"
definition PNG_FORMAT_RGBA :: int where "PNG_FORMAT_RGBA = 0x03"
definition PNG_FILTER_NONE :: int where "PNG_FILTER_NONE = 0x08"
definition PNG_ALL_FILTERS :: int where "PNG_ALL_FILTERS = 0xF8"

definition GREEDY_COMPR_LVL_MIN :: int where "GREEDY_COMPR_LVL_MIN = 9"
definition GREEDY_COMPR_LVL_MAX :: int where "GREEDY_COMPR_LVL_MAX = 9"
definition GREEDY_COMPR_MEM_LVL_MIN :: int where "GREEDY_COMPR_MEM_LVL_MIN = 8"
definition GREEDY_COMPR_MEM_LVL_MAX :: int where "GREEDY_COMPR_MEM_LVL_MAX = 8"
definition GREEDY_COMPR_STRAT_MIN :: int where "GREEDY_COMPR_STRAT_MIN = 0"
definition GREEDY_COMPR_STRAT_MAX :: int where "GREEDY_COMPR_STRAT_MAX = 3"
definition GREEDY_FILTER_0 :: int where "GREEDY_FILTER_0 = PNG_FILTER_NONE"
definition GREEDY_FILTER_5 :: int where "GREEDY_FILTER_5 = PNG_ALL_FILTERS"

subsection \<open>The library behind the module\<close>

text \<open>
  What \<open>write_to_file\<close> configures on a libpng write struct before it streams the rows:
  the four tunables and the image header (bit depth 8, colour type RGBA, no interlacing
  and the default compression and filter types are the same in every call).
\<close>

record write_struct =
  set_compression_level :: int
  set_compression_mem_level :: int
  set_compression_strategy :: int
  set_filter :: int
  IHDR_width :: int
  IHDR_height :: int

record png_image =
  image_version :: int
  image_width :: int
  image_height :: int
  image_format :: int

text \<open>
  \<^item> \<open>png_write ws rows\<close>: the bytes libpng emits on its output stream for
    \<^verbatim>\<open>png_write_info\<close>, one \<^verbatim>\<open>png_write_row\<close> per row pointer and \<^verbatim>\<open>png_write_end\<close>,
    on a write struct configured as \<open>ws\<close>.
  \<^item> \<open>png_image_write_to_memory image memory memory_bytes rgb_data\<close>: the simplified
    API; \<open>memory\<close> says whether an output buffer is passed (\<open>False\<close> is the \<^verbatim>\<open>NULL\<close>
    of the sizing call). The answer is the C result (0 on failure), the byte count left in
    \<^verbatim>\<open>*memory_bytes\<close> and the content of the output buffer.
  \<^item> \<open>fread stream n\<close>: how many of the \<open>n\<close> requested bytes the C library reads
    back from the rewound memory stream.
\<close>

record externals =
  png_write :: "write_struct \<Rightarrow> byte list list \<Rightarrow> byte list"
  png_image_write_to_memory :: "png_image \<Rightarrow> bool \<Rightarrow> nat \<Rightarrow> byte list \<Rightarrow> int \<times> nat \<times> byte list"
  fread :: "byte list \<Rightarrow> nat \<Rightarrow> nat"

text \<open>
  A call into the library: \<open>Write_to_memory memory\<close> is one
  \<^verbatim>\<open>png_image_write_to_memory\<close>, \<open>Write_to_file compression_level memory_level
  compression_strategy filters\<close> is one run of \<open>write_to_file\<close>, an encode with these four
  settings.
\<close>

datatype call = Write_to_memory bool | Write_to_file int int int int

subsection \<open>C and Python conversions\<close>

text \<open>A \<^verbatim>\<open>long\<close> or \<^verbatim>\<open>Py_ssize_t\<close> stored in a C \<^verbatim>\<open>int\<close> keeps its low 32 bits.\<close>

definition to_c_int :: "nat \<Rightarrow> int" where
  "to_c_int n = sint (word_of_nat n :: 32 word)"

text \<open>A Python integer stored in a \<^verbatim>\<open>uint8_t\<close> field: Cython raises when it does not fit.\<close>

definition to_uint8 :: "int \<Rightarrow> py_error + byte" where
  "to_uint8 v = (if 0 \<le> v \<and> v \<le> 255 then Inr (word_of_int v) else Inl OverflowError)"

definition tuple_item :: "int list \<Rightarrow> nat \<Rightarrow> py_error + int" where
  "tuple_item t i = (if i < length t then Inr (t ! i) else Inl Unchecked_read)"

definition settings_field :: "int list \<Rightarrow> nat \<Rightarrow> py_error + byte" where
  "settings_field t i = (case tuple_item t i of Inl e \<Rightarrow> Inl e | Inr v \<Rightarrow> to_uint8 v)"

text \<open>\<^verbatim>\<open>bytearray(n)\<close> is \<open>n\<close> zero bytes; the first \<open>k\<close> are then overwritten from \<open>src\<close>.\<close>

definition bytearray_filled :: "nat \<Rightarrow> nat \<Rightarrow> byte list \<Rightarrow> byte list" where
  "bytearray_filled n k src = take k src @ replicate (n - min k (length src)) 0"

text \<open>\<^verbatim>\<open>&imagedata[row_idx,0,0]\<close>: the buffer from the first byte of the row onwards.\<close>

definition row_ptr :: "ndarray \<Rightarrow> nat \<Rightarrow> byte list" where
  "row_ptr imagedata row_idx = drop (row_idx * shape1 imagedata * shape2 imagedata) (buffer imagedata)"

section \<open>The functions of the module\<close>

subsection \<open>\<open>write_to_file\<close>\<close>

text \<open>The stream \<open>fp\<close> is its content so far; the result is the content afterwards.\<close>

definition write_to_file ::
  "externals \<Rightarrow> ndarray \<Rightarrow> byte list \<Rightarrow> int \<Rightarrow> int \<Rightarrow> int \<Rightarrow> int \<Rightarrow> int \<Rightarrow> int \<Rightarrow> byte list \<times> call list" where
  "write_to_file ext imagedata fp compression_level memory_level compression_strategy filters' width height =
     (let ws = \<lparr>set_compression_level = compression_level,
                set_compression_mem_level = memory_level,
                set_compression_strategy = compression_strategy,
                set_filter = filters',
                IHDR_width = width, IHDR_height = height\<rparr>;
          rows = map (row_ptr imagedata) [0..<nat height]
      in (fp @ png_write ext ws rows,
          [Write_to_file compression_level memory_level compression_strategy filters']))"

subsection \<open>\<open>optimize_default\<close>\<close>

definition optimize_default ::
  "externals \<Rightarrow> ndarray \<Rightarrow> int \<Rightarrow> int \<Rightarrow> (py_error + byte list) \<times> call list" where
  "optimize_default ext imagedata width height =
     (let write_image = \<lparr>image_version = PNG_IMAGE_VERSION, image_width = width,
                         image_height = height, image_format = PNG_FORMAT_RGBA\<rparr>;
          rgb_data = buffer imagedata;
          (wresult, write_image_size, untouched) =
             png_image_write_to_memory ext write_image False 0 rgb_data
      in if wresult = 0
         then (Inl (MemoryError ''Could not allocate memory for PNG conversion.''),
               [Write_to_memory False])
         else
           let (wresult, write_image_size, outbuffer) =
                  png_image_write_to_memory ext write_image True write_image_size rgb_data
           in if wresult = 0
              then (Inl (MemoryError ''Write to buffer failed for PNG conversion.''),
                    [Write_to_memory False, Write_to_memory True])
              else (Inr (bytearray_filled write_image_size write_image_size outbuffer),
                    [Write_to_memory False, Write_to_memory True]))"

subsection \<open>\<open>optimize_greedy_iterate\<close>\<close>

text \<open>The local variables of the search that the loop body changes, and the calls so far.\<close>

record search_vars =
  best_filesize :: int
  best_compr_lvl :: byte
  best_compr_mem_lvl :: byte
  best_compr_strat :: byte
  best_filters :: byte
  calls :: "call list"

text \<open>The values the \<^verbatim>\<open>cdef\<close> lines give these variables before the loops.\<close>

definition initial_vars :: search_vars where
  "initial_vars = \<lparr>best_filesize = 0x7fffffff, best_compr_lvl = 0xFF, best_compr_mem_lvl = 0xFF,
                    best_compr_strat = 0xFF, best_filters = 0xFF, calls = []\<rparr>"

text \<open>
  The body of the innermost loop: one trial on a fresh memory stream. The size \<^verbatim>\<open>ftell\<close>
  reports is stored in the C \<^verbatim>\<open>int\<close> \<open>current_filesize\<close>. The loop values stored in the
  byte-sized locals are 9, 8, 0 to 3, \<open>0x08\<close> and \<open>0xF8\<close>: all fit.
\<close>

definition greedy_trial ::
  "externals \<Rightarrow> ndarray \<Rightarrow> int \<Rightarrow> int \<Rightarrow> int \<Rightarrow> int \<Rightarrow> int \<Rightarrow> int \<Rightarrow> search_vars \<Rightarrow> search_vars" where
  "greedy_trial ext imagedata width height filters' strategy compr_lvl' mem_lvl' v =
     (let (fp, made) = write_to_file ext imagedata [] compr_lvl' mem_lvl' strategy filters' width height;
          current_filesize = to_c_int (length fp);
          v = v\<lparr>calls := calls v @ made\<rparr>
      in if current_filesize < best_filesize v
         then v\<lparr>best_compr_lvl := word_of_int compr_lvl',
                best_compr_mem_lvl := word_of_int mem_lvl',
                best_compr_strat := word_of_int strategy,
                best_filters := word_of_int filters',
                best_filesize := current_filesize\<rparr>
         else v)"

definition optimize_greedy_iterate ::
  "externals \<Rightarrow> ndarray \<Rightarrow> int \<Rightarrow> int \<Rightarrow> greedy_replay_param \<times> call list" where
  "optimize_greedy_iterate ext imagedata width height =
     (let v = initial_vars;
          v = fold (\<lambda>filters' v.
                if filters' \<noteq> GREEDY_FILTER_0 \<and> filters' \<noteq> GREEDY_FILTER_5 then v
                else
                  fold (\<lambda>strategy.
                    fold (\<lambda>compr_lvl'.
                      fold (\<lambda>mem_lvl'.
                        greedy_trial ext imagedata width height filters' strategy compr_lvl' mem_lvl')
                        [GREEDY_COMPR_MEM_LVL_MIN..GREEDY_COMPR_MEM_LVL_MAX])
                      [GREEDY_COMPR_LVL_MIN..GREEDY_COMPR_LVL_MAX])
                    [GREEDY_COMPR_STRAT_MIN..GREEDY_COMPR_STRAT_MAX] v)
                [GREEDY_FILTER_0..GREEDY_FILTER_5] v
      in (\<lparr>compr_lvl = best_compr_lvl v, mem_lvl = best_compr_mem_lvl v,
           strat = best_compr_strat v, filters = best_filters v\<rparr>,
          calls v))"

subsection \<open>\<open>optimize_greedy\<close>\<close>

definition optimize_greedy ::
  "externals \<Rightarrow> ndarray \<Rightarrow> int \<Rightarrow> int \<Rightarrow> greedy_replay_param \<Rightarrow>
     (py_error + byte list \<times> greedy_replay_param) \<times> call list" where
  "optimize_greedy ext imagedata width height replay =
     (let (replay, searched) =
            (if compr_lvl replay = 0xFF then optimize_greedy_iterate ext imagedata width height
             else (replay, []));
          (fp, made) = write_to_file ext imagedata []
                         (uint (compr_lvl replay)) (uint (mem_lvl replay))
                         (uint (strat replay)) (uint (filters replay)) width height;
          filesize = length fp;
          wresult = fread ext fp filesize
      in if wresult \<noteq> filesize
         then (Inl (MemoryError ''Copy to bytearray failed for PNG conversion.''), searched @ made)
         else (Inr (bytearray_filled filesize wresult fp, replay), searched @ made))"

subsection \<open>\<open>save\<close>\<close>

text \<open>
  \<open>compr_settings\<close> is \<open>None\<close> or a tuple of integers. The four assignments to the
  fields of \<open>replay\<close> run in order, and the first one that fails ends the call.
  \<open>width\<close> and \<open>height\<close> are read from the shape into \<^verbatim>\<open>unsigned int\<close> locals and
  passed on as \<^verbatim>\<open>int\<close>. Before anything else, the memory view \<open>mview\<close> is taken from
  the array: it asks for a writable buffer, and a read-only array raises \<open>ValueError\<close>.
\<close>

definition replay_of_settings :: "int list option \<Rightarrow> py_error + greedy_replay_param" where
  "replay_of_settings compr_settings =
     (case compr_settings of
        None \<Rightarrow> Inr \<lparr>compr_lvl = 0xFF, mem_lvl = 0xFF, strat = 0xFF, filters = 0xFF\<rparr>
      | Some t \<Rightarrow>
          if t = [] then Inr \<lparr>compr_lvl = 0xFF, mem_lvl = 0xFF, strat = 0xFF, filters = 0xFF\<rparr>
          else
            (case settings_field t 0 of Inl e \<Rightarrow> Inl e | Inr c \<Rightarrow>
            (case settings_field t 1 of Inl e \<Rightarrow> Inl e | Inr m \<Rightarrow>
            (case settings_field t 2 of Inl e \<Rightarrow> Inl e | Inr s \<Rightarrow>
            (case settings_field t 3 of Inl e \<Rightarrow> Inl e | Inr f \<Rightarrow>
               Inr \<lparr>compr_lvl = c, mem_lvl = m, strat = s, filters = f\<rparr>)))))"

definition save ::
  "externals \<Rightarrow> ndarray \<Rightarrow> py_object \<Rightarrow> int list option \<Rightarrow>
     (py_error + byte list \<times> (int \<times> int \<times> int \<times> int) option) \<times> call list" where
  "save ext imagedata compr_method compr_settings =
     (let width = to_c_int (shape1 imagedata);
          height = to_c_int (shape0 imagedata)
      in if \<not> writeable imagedata then (Inl ValueError, [])
         else if compr_method = Enum_member COMPR_GREEDY
         then
           (case replay_of_settings compr_settings of
              Inl e \<Rightarrow> (Inl e, [])
            | Inr replay \<Rightarrow>
                (case optimize_greedy ext imagedata width height replay of
                   (Inl e, made) \<Rightarrow> (Inl e, made)
                 | (Inr (outdata, used_settings), made) \<Rightarrow>
                     (Inr (outdata,
                           Some (uint (compr_lvl used_settings), uint (mem_lvl used_settings),
                                 uint (strat used_settings), uint (filters used_settings))),
                      made)))
         else
           (case optimize_default ext imagedata width height of
              (Inl e, made) \<Rightarrow> (Inl e, made)
            | (Inr outdata, made) \<Rightarrow> (Inr (outdata, None), made)))"

section \<open>Vocabulary for the properties\<close>

text \<open>
  A candidate of the search is written in loop order, outermost loop first:
  \<open>(filters, strategy, compr_lvl, mem_lvl)\<close>. \<open>enumeration_order\<close> is the order the
  specification gives: the two filter values outermost, the four strategies inside, level
  9 and memory level 8.
\<close>

type_synonym candidate = "int \<times> int \<times> int \<times> int"

definition enumeration_order :: "candidate list" where
  "enumeration_order = concat (map (\<lambda>f. map (\<lambda>s. (f, s, 9, 8)) [0, 1, 2, 3]) [0x08, 0xF8])"

definition trial_of :: "externals \<Rightarrow> ndarray \<Rightarrow> int \<Rightarrow> int \<Rightarrow> candidate \<Rightarrow> search_vars \<Rightarrow> search_vars" where
  "trial_of ext imagedata width height =
     (\<lambda>(f, s, c, m). greedy_trial ext imagedata width height f s c m)"

text \<open>The content of the fresh memory stream after the encode with a candidate's settings.\<close>

definition trial_bytes :: "externals \<Rightarrow> ndarray \<Rightarrow> int \<Rightarrow> int \<Rightarrow> candidate \<Rightarrow> byte list" where
  "trial_bytes ext imagedata width height =
     (\<lambda>(f, s, c, m). fst (write_to_file ext imagedata [] c m s f width height))"

definition settings_of :: "candidate \<Rightarrow> greedy_replay_param" where
  "settings_of = (\<lambda>(f, s, c, m). \<lparr>compr_lvl = word_of_int c, mem_lvl = word_of_int m,
                                  strat = word_of_int s, filters = word_of_int f\<rparr>)"

definition call_of :: "candidate \<Rightarrow> call" where
  "call_of = (\<lambda>(f, s, c, m). Write_to_file c m s f)"

definition chosen :: "search_vars \<Rightarrow> greedy_replay_param" where
  "chosen v = \<lparr>compr_lvl = best_compr_lvl v, mem_lvl = best_compr_mem_lvl v,
               strat = best_compr_strat v, filters = best_filters v\<rparr>"

text \<open>The tuple \<open>save\<close> builds from the dictionary of the settings used.\<close>

definition settings_tuple :: "greedy_replay_param \<Rightarrow> int \<times> int \<times> int \<times> int" where
  "settings_tuple r = (uint (compr_lvl r), uint (mem_lvl r), uint (strat r), uint (filters r))"

text \<open>
  Inside \<open>optimize_greedy\<close>: the settings the final encode runs with (the caller's, or the
  search's when the caller's level is \<open>0xFF\<close>), the call that encode makes and the stream
  it leaves.
\<close>

definition used_replay :: "externals \<Rightarrow> ndarray \<Rightarrow> int \<Rightarrow> int \<Rightarrow> greedy_replay_param \<Rightarrow> greedy_replay_param" where
  "used_replay ext imagedata width height replay =
     (if compr_lvl replay = 0xFF then fst (optimize_greedy_iterate ext imagedata width height)
      else replay)"

definition final_call :: "greedy_replay_param \<Rightarrow> call" where
  "final_call r = Write_to_file (uint (compr_lvl r)) (uint (mem_lvl r)) (uint (strat r)) (uint (filters r))"

definition final_stream :: "externals \<Rightarrow> ndarray \<Rightarrow> int \<Rightarrow> int \<Rightarrow> greedy_replay_param \<Rightarrow> byte list" where
  "final_stream ext imagedata width height r =
     fst (write_to_file ext imagedata [] (uint (compr_lvl r)) (uint (mem_lvl r))
            (uint (strat r)) (uint (filters r)) width height)"

text \<open>
  Inside \<open>optimize_default\<close>: the image header it fills in, and the library's answers to
  its sizing call and to its write call (which is given the size the sizing call left).
\<close>

definition write_image_of :: "int \<Rightarrow> int \<Rightarrow> png_image" where
  "write_image_of width height =
     \<lparr>image_version = PNG_IMAGE_VERSION, image_width = width, image_height = height,
      image_format = PNG_FORMAT_RGBA\<rparr>"

definition sizing_call :: "externals \<Rightarrow> ndarray \<Rightarrow> int \<Rightarrow> int \<Rightarrow> int \<times> nat \<times> byte list" where
  "sizing_call ext imagedata width height =
     png_image_write_to_memory ext (write_image_of width height) False 0 (buffer imagedata)"

definition write_call :: "externals \<Rightarrow> ndarray \<Rightarrow> int \<Rightarrow> int \<Rightarrow> int \<times> nat \<times> byte list" where
  "write_call ext imagedata width height =
     png_image_write_to_memory ext (write_image_of width height) True
       (fst (snd (sizing_call ext imagedata width height))) (buffer imagedata)"

definition is_MemoryError :: "py_error \<Rightarrow> bool" where
  "is_MemoryError e =
     (case e of MemoryError msg \<Rightarrow> True | ValueError \<Rightarrow> False | OverflowError \<Rightarrow> False
      | Unchecked_read \<Rightarrow> False)"

text \<open>A record of settings as a candidate, in loop order.\<close>

definition candidate_of :: "greedy_replay_param \<Rightarrow> candidate" where
  "candidate_of r = (uint (filters r), uint (strat r), uint (compr_lvl r), uint (mem_lvl r))"

subsection \<open>Concrete libraries and images for the examples\<close>

text \<open>
  A library whose streamed output has a length that depends on the filter and the
  strategy only (filter \<open>0x08\<close>: 30, 25, 25, 40 bytes for the strategies 0 to 3; any other
  filter: 25, 28, 20, 20), whose simplified API answers four bytes, and whose memory
  stream reads back in full.
\<close>

definition demo_length :: "write_struct \<Rightarrow> nat" where
  "demo_length ws =
     (if set_filter ws = 8
      then (if set_compression_strategy ws = 0 then 30
            else if set_compression_strategy ws = 3 then 40 else 25)
      else (if set_compression_strategy ws = 0 then 25
            else if set_compression_strategy ws = 1 then 28 else 20))"

definition demo_ext :: externals where
  "demo_ext = \<lparr>png_write = (\<lambda>ws rows. replicate (demo_length ws) (word_of_int (set_compression_strategy ws))),
                png_image_write_to_memory = (\<lambda>image memory n rgb_data. (1, 4, if memory then [137, 80, 78, 71] else [])),
                fread = (\<lambda>stream n. n)\<rparr>"



text \<open>The same library, except for its answer to settings no search ever tries.\<close>

definition other_ext :: externals where
  "other_ext = demo_ext\<lparr>png_write := (\<lambda>ws rows.
      if set_compression_level ws = 1 then [] else png_write demo_ext ws rows)\<rparr>"

text \<open>A library whose sizing call fails, one whose write call fails, one whose read is short.\<close>

definition no_memory_ext :: externals where
  "no_memory_ext = demo_ext\<lparr>png_image_write_to_memory := (\<lambda>image memory n rgb_data. (0, 0, []))\<rparr>"

definition no_write_ext :: externals where
  "no_write_ext = demo_ext\<lparr>png_image_write_to_memory :=
      (\<lambda>image memory n rgb_data. if memory then (0, 4, [137, 80]) else (1, 4, []))\<rparr>"

definition short_read_ext :: externals where
  "short_read_ext = demo_ext\<lparr>fread := (\<lambda>stream n. n - 1)\<rparr>"

text \<open>
  One red pixel; an array with no rows; a one-pixel array with three channels; the red
  pixel again, read-only; and an array of 32767 rows of 16384 pixels, whose buffer has
  \<open>2^31 - 65536\<close> bytes.
\<close>

definition demo_image :: ndarray where
  "demo_image = \<lparr>shape0 = 1, shape1 = 1, shape2 = 4, buffer = [255, 0, 0, 255],
                  writeable = True\<rparr>"

definition empty_image :: ndarray where
  "empty_image = \<lparr>shape0 = 0, shape1 = 0, shape2 = 4, buffer = [], writeable = True\<rparr>"

definition rgb_image :: ndarray where
  "rgb_image = \<lparr>shape0 = 1, shape1 = 1, shape2 = 3, buffer = [255, 0, 0], writeable = True\<rparr>"

definition readonly_image :: ndarray where
  "readonly_image = demo_image\<lparr>writeable := False\<rparr>"


section \<open>The search loop\<close>

lemma filter_range:
  "fold (\<lambda>f v. if f \<noteq> (8::int) \<and> f \<noteq> 248 then v else g f v) [8..248] v = g 248 (g 8 v)"
  by simp

lemma strat_range: "[0..3] = [0, 1, 2, 3::int]"
  by (simp add: upto_rec1)

text \<open>The four nested loops visit the eight candidates of \<open>enumeration_order\<close>, in that order.\<close>

lemma search_unrolled:
  "optimize_greedy_iterate ext imagedata width height =
     (let v = fold (trial_of ext imagedata width height) enumeration_order initial_vars
      in (chosen v, calls v))"
  unfolding optimize_greedy_iterate_def GREEDY_FILTER_0_def GREEDY_FILTER_5_def
    PNG_FILTER_NONE_def PNG_ALL_FILTERS_def GREEDY_COMPR_LVL_MIN_def GREEDY_COMPR_LVL_MAX_def
    GREEDY_COMPR_MEM_LVL_MIN_def GREEDY_COMPR_MEM_LVL_MAX_def GREEDY_COMPR_STRAT_MIN_def
    GREEDY_COMPR_STRAT_MAX_def filter_range strat_range
  by (simp add: enumeration_order_def trial_of_def chosen_def Let_def)

lemma trial_of_calls:
  "calls (trial_of ext imagedata width height p v) = calls v @ [call_of p]"
  by (cases p) (simp add: trial_of_def greedy_trial_def write_to_file_def call_of_def Let_def)

lemma trial_of_best:
  "best_filesize (trial_of ext imagedata width height p v) =
     (if to_c_int (length (trial_bytes ext imagedata width height p)) < best_filesize v
      then to_c_int (length (trial_bytes ext imagedata width height p)) else best_filesize v)"
  by (cases p) (simp add: trial_of_def greedy_trial_def write_to_file_def trial_bytes_def Let_def)

lemma trial_of_chosen:
  "chosen (trial_of ext imagedata width height p v) =
     (if to_c_int (length (trial_bytes ext imagedata width height p)) < best_filesize v
      then settings_of p else chosen v)"
  by (cases p)
    (simp add: trial_of_def greedy_trial_def write_to_file_def trial_bytes_def chosen_def
      settings_of_def Let_def)

lemma fold_trial_calls:
  "calls (fold (trial_of ext imagedata width height) ps v) = calls v @ map call_of ps"
  by (induction ps arbitrary: v) (simp_all add: trial_of_calls)

text \<open>
  After any run of trials, either no trial was smaller than the size the run started
  with and nothing changed, or the settings kept are those of the first trial of minimal
  size.
\<close>

lemma fold_trial_first_min:
  fixes sz :: "candidate \<Rightarrow> int" and w :: search_vars
  assumes sz_def: "sz = (\<lambda>p. to_c_int (length (trial_bytes ext imagedata width height p)))"
    and w_def: "w = fold (trial_of ext imagedata width height) ps v"
  shows "(chosen w = chosen v \<and> best_filesize w = best_filesize v \<and> (\<forall>p \<in> set ps. best_filesize v \<le> sz p))
       \<or> (\<exists>i < length ps. chosen w = settings_of (ps ! i) \<and> best_filesize w = sz (ps ! i)
             \<and> sz (ps ! i) < best_filesize v
             \<and> (\<forall>j < length ps. sz (ps ! i) \<le> sz (ps ! j))
             \<and> (\<forall>j < i. sz (ps ! i) < sz (ps ! j)))"
  unfolding w_def
proof (induction ps rule: rev_induct)
  case Nil
  show ?case by simp
next
  case (snoc x xs)
  let ?u = "fold (trial_of ext imagedata width height) xs v"
  have step_c: "chosen (fold (trial_of ext imagedata width height) (xs @ [x]) v) =
     (if sz x < best_filesize ?u then settings_of x else chosen ?u)"
    by (simp add: trial_of_chosen sz_def)
  have step_b: "best_filesize (fold (trial_of ext imagedata width height) (xs @ [x]) v) =
     (if sz x < best_filesize ?u then sz x else best_filesize ?u)"
    by (simp add: trial_of_best sz_def)
  from snoc.IH show ?case
  proof (elim disjE exE conjE)
    assume a: "chosen ?u = chosen v" "best_filesize ?u = best_filesize v"
      "\<forall>p \<in> set xs. best_filesize v \<le> sz p"
    have a3: "\<forall>j < length xs. best_filesize v \<le> sz (xs ! j)"
      using a(3) by simp
    show ?thesis
    proof (cases "sz x < best_filesize v")
      case True
      have "\<forall>j < length (xs @ [x]). sz x \<le> sz ((xs @ [x]) ! j)"
        using a3 True by (auto simp: nth_append less_Suc_eq dest: order_less_le_trans)
      moreover have "\<forall>j < length xs. sz x < sz ((xs @ [x]) ! j)"
        using a3 True by (auto simp: nth_append dest: order_less_le_trans)
      ultimately show ?thesis
        using True a(2) step_c step_b
        by (intro disjI2 exI[of _ "length xs"]) simp
    next
      case False
      then show ?thesis using a step_c step_b by auto
    qed
  next
    fix i
    assume b: "i < length xs" "chosen ?u = settings_of (xs ! i)" "best_filesize ?u = sz (xs ! i)"
      "sz (xs ! i) < best_filesize v" "\<forall>j < length xs. sz (xs ! i) \<le> sz (xs ! j)"
      "\<forall>j < i. sz (xs ! i) < sz (xs ! j)"
    show ?thesis
    proof (cases "sz x < sz (xs ! i)")
      case True
      have "\<forall>j < length (xs @ [x]). sz x \<le> sz ((xs @ [x]) ! j)"
        using b(5) True by (auto simp: nth_append less_Suc_eq dest: order_less_le_trans)
      moreover have "\<forall>j < length xs. sz x < sz ((xs @ [x]) ! j)"
        using b(5) True by (auto simp: nth_append dest: order_less_le_trans)
      ultimately show ?thesis
        using True b(3,4) step_c step_b
        by (intro disjI2 exI[of _ "length xs"]) simp
    next
      case False
      have "\<forall>j < length (xs @ [x]). sz (xs ! i) \<le> sz ((xs @ [x]) ! j)"
        using b(5) False by (auto simp: nth_append less_Suc_eq)
      moreover have "\<forall>j < i. sz (xs ! i) < sz ((xs @ [x]) ! j)"
        using b(1,6) by (auto simp: nth_append)
      ultimately show ?thesis
        using False b(1,2,3,4) step_c step_b
        by (intro disjI2 exI[of _ i]) (simp add: nth_append)
    qed
  qed
qed

lemma bytearray_filled_all [simp]: "bytearray_filled (length fp) (length fp) fp = fp"
  by (simp add: bytearray_filled_def)

lemma write_to_file_calls:
  "snd (write_to_file ext imagedata fp c m s f width height) = [Write_to_file c m s f]"
  by (simp add: write_to_file_def Let_def)

lemma optimize_greedy_eq:
  "optimize_greedy ext imagedata width height replay =
     (let u = used_replay ext imagedata width height replay;
          fp = final_stream ext imagedata width height u
      in (if fread ext fp (length fp) \<noteq> length fp
          then Inl (MemoryError ''Copy to bytearray failed for PNG conversion.'')
          else Inr (fp, u),
          (if compr_lvl replay = 0xFF then snd (optimize_greedy_iterate ext imagedata width height) else [])
            @ [final_call u]))"
  by (simp add: optimize_greedy_def used_replay_def final_stream_def final_call_def Let_def
      split_beta write_to_file_calls)

lemma search_calls:
  "snd (optimize_greedy_iterate ext imagedata width height) = map call_of enumeration_order"
  by (simp add: search_unrolled Let_def fold_trial_calls initial_vars_def)

lemma enumeration_calls:
  "map call_of enumeration_order =
     [Write_to_file 9 8 0 8, Write_to_file 9 8 1 8, Write_to_file 9 8 2 8, Write_to_file 9 8 3 8,
      Write_to_file 9 8 0 248, Write_to_file 9 8 1 248, Write_to_file 9 8 2 248,
      Write_to_file 9 8 3 248]"
  by (simp add: enumeration_order_def call_of_def)

lemma replay_of_None [simp]:
  "replay_of_settings None = Inr \<lparr>compr_lvl = 0xFF, mem_lvl = 0xFF, strat = 0xFF, filters = 0xFF\<rparr>"
  by (simp add: replay_of_settings_def)

lemma save_readonly:
  "\<not> writeable imagedata \<Longrightarrow> save ext imagedata compr_method compr_settings = (Inl ValueError, [])"
  by (simp add: save_def)

lemma save_greedy_calls:
  "writeable imagedata \<Longrightarrow> replay_of_settings cs = Inr replay \<Longrightarrow>
   snd (save ext imagedata (Enum_member COMPR_GREEDY) cs) =
     snd (optimize_greedy ext imagedata (to_c_int (shape1 imagedata)) (to_c_int (shape0 imagedata)) replay)"
  by (simp add: save_def Let_def split: prod.splits sum.splits)

section \<open>Properties of the module\<close>

text \<open>
  C1. A full greedy search makes exactly eight trial encodes, in a fixed order: the filter
  outermost over \<open>0x08\<close> and \<open>0xF8\<close>, the strategy over 0 to 3 inside, with compression
  level 9 and memory level 8 throughout (a call is written \<open>Write_to_file level
  memory_level strategy filters\<close>). \<open>save\<close> with the greedy method and no settings makes
  these eight calls and then one more, the encode it returns (on a read-only array it
  makes no call at all).
\<close>

theorem greedy_search_eight_trials:
  "snd (optimize_greedy_iterate ext imagedata width height) =
     [Write_to_file 9 8 0 8, Write_to_file 9 8 1 8, Write_to_file 9 8 2 8, Write_to_file 9 8 3 8,
      Write_to_file 9 8 0 248, Write_to_file 9 8 1 248, Write_to_file 9 8 2 248,
      Write_to_file 9 8 3 248]
   \<and> length (snd (optimize_greedy_iterate ext imagedata width height)) = 8
   \<and> snd (save ext imagedata (Enum_member COMPR_GREEDY) None) =
        (if writeable imagedata
         then snd (optimize_greedy_iterate ext imagedata (to_c_int (shape1 imagedata)) (to_c_int (shape0 imagedata)))
                @ [final_call (fst (optimize_greedy_iterate ext imagedata
                      (to_c_int (shape1 imagedata)) (to_c_int (shape0 imagedata))))]
         else [])"
proof -
  have a: "snd (optimize_greedy_iterate ext imagedata width height) = map call_of enumeration_order"
    by (rule search_calls)
  have b: "snd (save ext imagedata (Enum_member COMPR_GREEDY) None) =
      snd (optimize_greedy_iterate ext imagedata (to_c_int (shape1 imagedata)) (to_c_int (shape0 imagedata)))
        @ [final_call (fst (optimize_greedy_iterate ext imagedata
              (to_c_int (shape1 imagedata)) (to_c_int (shape0 imagedata))))]"
    if "writeable imagedata"
    using that
    by (simp add: save_greedy_calls [OF that replay_of_None] optimize_greedy_eq used_replay_def Let_def)
  show ?thesis
    by (simp add: a enumeration_calls b save_readonly)
qed

lemma to_c_int_small: "n < 2147483648 \<Longrightarrow> to_c_int n = int n"
  unfolding to_c_int_def
  by (simp add: signed_of_nat signed_take_bit_int_eq_self)

text \<open>
  When each of the eight trial encodes is shorter than \<open>2^31 - 1\<close> bytes, so that its
  size fits the C \<^verbatim>\<open>int\<close> \<open>current_filesize\<close> and is smaller than the initial
  \<open>0x7fffffff\<close>, the search returns the settings of the first candidate, in enumeration
  order, whose encoded size is the minimum over all candidates: no candidate is smaller,
  and every candidate before it is strictly larger.
\<close>

lemma search_first_minimum_below_bound:
  assumes small: "\<forall>p \<in> set enumeration_order. length (trial_bytes ext imagedata width height p) < 2147483647"
  shows "\<exists>i < length enumeration_order.
           fst (optimize_greedy_iterate ext imagedata width height) = settings_of (enumeration_order ! i)
         \<and> (\<forall>j < length enumeration_order.
               length (trial_bytes ext imagedata width height (enumeration_order ! i))
                 \<le> length (trial_bytes ext imagedata width height (enumeration_order ! j)))
         \<and> (\<forall>j < i.
               length (trial_bytes ext imagedata width height (enumeration_order ! i))
                 < length (trial_bytes ext imagedata width height (enumeration_order ! j)))"
proof -
  define sz where "sz = (\<lambda>p. to_c_int (length (trial_bytes ext imagedata width height p)))"
  define w where "w = fold (trial_of ext imagedata width height) enumeration_order initial_vars"
  have sz_int: "sz (enumeration_order ! j) = int (length (trial_bytes ext imagedata width height (enumeration_order ! j)))"
    if "j < length enumeration_order" for j
  proof -
    have "length (trial_bytes ext imagedata width height (enumeration_order ! j)) < 2147483647"
      using small that nth_mem by blast
    then show ?thesis by (simp add: sz_def to_c_int_small)
  qed
  have res: "fst (optimize_greedy_iterate ext imagedata width height) = chosen w"
    by (simp add: search_unrolled w_def Let_def)
  have first: "(8, 0, 9, 8) \<in> set enumeration_order"
    by (simp add: enumeration_order_def)
  have "length (trial_bytes ext imagedata width height (8, 0, 9, 8)) < 2147483647"
    using small first by blast
  then have "sz (8, 0, 9, 8) < best_filesize initial_vars"
    by (simp add: sz_def to_c_int_small initial_vars_def)
  then have "\<not> (\<forall>p \<in> set enumeration_order. best_filesize initial_vars \<le> sz p)"
    using first by (auto simp: not_le)
  with fold_trial_first_min [OF sz_def w_def]
  obtain i where i: "i < length enumeration_order" "chosen w = settings_of (enumeration_order ! i)"
      "\<forall>j < length enumeration_order. sz (enumeration_order ! i) \<le> sz (enumeration_order ! j)"
      "\<forall>j < i. sz (enumeration_order ! i) < sz (enumeration_order ! j)"
    by blast
  have "\<forall>j < length enumeration_order.
               length (trial_bytes ext imagedata width height (enumeration_order ! i))
                 \<le> length (trial_bytes ext imagedata width height (enumeration_order ! j))"
    using i(1,3) by (simp add: sz_int)
  moreover have "\<forall>j < i.
               length (trial_bytes ext imagedata width height (enumeration_order ! i))
                 < length (trial_bytes ext imagedata width height (enumeration_order ! j))"
    using i(1,4) by (simp add: sz_int)
  ultimately show ?thesis using i(1,2) res by auto
qed

lemma enumeration_list:
  "enumeration_order = [(8, 0, 9, 8), (8, 1, 9, 8), (8, 2, 9, 8), (8, 3, 9, 8),
     (248, 0, 9, 8), (248, 1, 9, 8), (248, 2, 9, 8), (248, 3, 9, 8)]"
  by (simp add: enumeration_order_def)

lemma demo_trial_length:
  "length (trial_bytes demo_ext imagedata width height (f, s, c, m)) =
     (if f = 8 then (if s = 0 then 30 else if s = 3 then 40 else 25)
      else (if s = 0 then 25 else if s = 1 then 28 else 20))"
  by (simp add: trial_bytes_def write_to_file_def demo_ext_def demo_length_def Let_def)

lemma demo_sizes:
  "map (\<lambda>p. length (trial_bytes demo_ext demo_image 1 1 p)) enumeration_order
       = [30, 25, 25, 40, 25, 28, 20, 20]"
  unfolding enumeration_list by (simp add: demo_trial_length)

lemma demo_small:
  "\<forall>p \<in> set enumeration_order. length (trial_bytes demo_ext demo_image 1 1 p) < 2147483647"
  unfolding enumeration_list by (simp add: demo_trial_length)

text \<open>
  On the example library the sizes are 30, 25, 25, 40, 25, 28, 20, 20: the seventh
  candidate wins, the eighth, of the same size, does not replace it.
\<close>

lemma demo_first_minimum:
  "map (\<lambda>p. length (trial_bytes demo_ext demo_image 1 1 p)) enumeration_order
       = [30, 25, 25, 40, 25, 28, 20, 20]
   \<and> fst (optimize_greedy_iterate demo_ext demo_image 1 1) = settings_of (248, 2, 9, 8)"
proof -
  let ?len = "\<lambda>j. length (trial_bytes demo_ext demo_image 1 1 (enumeration_order ! j))"
  have len: "length enumeration_order = 8"
    by (simp add: enumeration_list)
  have at: "?len j = [30, 25, 25, 40, 25, 28, 20, 20] ! j" if "j < 8" for j
  proof -
    have "map (\<lambda>p. length (trial_bytes demo_ext demo_image 1 1 p)) enumeration_order ! j = ?len j"
      using that len by simp
    then show ?thesis by (simp add: demo_sizes)
  qed
  from search_first_minimum_below_bound [OF demo_small]
  obtain i where i: "i < length enumeration_order"
      "fst (optimize_greedy_iterate demo_ext demo_image 1 1) = settings_of (enumeration_order ! i)"
      "\<forall>j < length enumeration_order. ?len i \<le> ?len j"
      "\<forall>j < i. ?len i < ?len j"
    by blast
  have i8: "i < 8" using i(1) len by simp
  have le6: "?len i \<le> ?len 6" using i(3) len by simp
  then have small: "[30, 25, 25, 40, 25, 28, 20, 20] ! i \<le> (20::nat)"
    using at [OF i8] at [of 6] by simp
  have "i \<noteq> 7"
  proof
    assume "i = 7"
    with i(4) have "?len 7 < ?len 6" by simp
    then show False using at [of 7] at [of 6] by simp
  qed
  moreover from i8 have "i = 0 \<or> i = 1 \<or> i = 2 \<or> i = 3 \<or> i = 4 \<or> i = 5 \<or> i = 6 \<or> i = 7"
    by arith
  ultimately have "i = 6" using small by auto
  then have "fst (optimize_greedy_iterate demo_ext demo_image 1 1) = settings_of (248, 2, 9, 8)"
    using i(2) by (simp add: enumeration_list)
  then show ?thesis using demo_sizes by simp
qed





lemma to_uint8_uint [simp]: "to_uint8 (uint (a :: byte)) = Inr a"
proof -
  have "uint a < 2 ^ 8" using uint_lt2p [of a] by simp
  then show ?thesis by (simp add: to_uint8_def)
qed

lemma replay_of_empty [simp]:
  "replay_of_settings (Some []) = Inr \<lparr>compr_lvl = 0xFF, mem_lvl = 0xFF, strat = 0xFF, filters = 0xFF\<rparr>"
  by (simp add: replay_of_settings_def)

lemma replay_of_bytes [simp]:
  "replay_of_settings (Some (uint a # uint b # uint c # uint d # rest)) =
     Inr \<lparr>compr_lvl = a, mem_lvl = b, strat = c, filters = d\<rparr>"
  by (simp add: replay_of_settings_def settings_field_def tuple_item_def)

lemma save_greedy_eq:
  assumes "writeable imagedata" and "replay_of_settings cs = Inr replay"
  shows "save ext imagedata (Enum_member COMPR_GREEDY) cs =
     (let width = to_c_int (shape1 imagedata); height = to_c_int (shape0 imagedata);
          u = used_replay ext imagedata width height replay;
          fp = final_stream ext imagedata width height u
      in (if fread ext fp (length fp) \<noteq> length fp
          then Inl (MemoryError ''Copy to bytearray failed for PNG conversion.'')
          else Inr (fp, Some (settings_tuple u)),
          (if compr_lvl replay = 0xFF then snd (optimize_greedy_iterate ext imagedata width height) else [])
            @ [final_call u]))"
  using assms by (simp add: save_def optimize_greedy_eq Let_def settings_tuple_def)

lemma final_stream_trial:
  "final_stream ext imagedata width height r =
     trial_bytes ext imagedata width height (uint (filters r), uint (strat r), uint (compr_lvl r), uint (mem_lvl r))"
  by (simp add: final_stream_def trial_bytes_def)

text \<open>
  C3. For every raster and every four-tuple \<open>P\<close> of byte values whose compression level
  is not the sentinel \<open>0xFF\<close>, \<open>save\<close> with the greedy method and \<open>P\<close> runs no search:
  its only call into the library is one encode with \<open>P\<close>. It returns the pair of the
  bytes and \<open>P\<close>, and the bytes are those of the stream a trial of the search with the
  settings \<open>P\<close> writes and measures (\<open>trial_bytes\<close>, see \<open>trial_of_best\<close>). The one
  other outcome is the \<open>MemoryError\<close> of a short read-back. (The array is writable: a
  read-only one is turned away with \<open>ValueError\<close> before \<open>P\<close> is looked at.)
\<close>

theorem replay_skips_search:
  fixes a b c d :: byte
  assumes "writeable imagedata" and "a \<noteq> 0xFF"
  shows "save ext imagedata (Enum_member COMPR_GREEDY) (Some [uint a, uint b, uint c, uint d]) =
     (let fp = trial_bytes ext imagedata (to_c_int (shape1 imagedata)) (to_c_int (shape0 imagedata))
                 (uint d, uint c, uint a, uint b)
      in (if fread ext fp (length fp) = length fp
          then Inr (fp, Some (uint a, uint b, uint c, uint d))
          else Inl (MemoryError ''Copy to bytearray failed for PNG conversion.''),
          [Write_to_file (uint a) (uint b) (uint c) (uint d)]))"
  using assms
  by (simp add: save_greedy_eq [OF assms(1) replay_of_bytes] used_replay_def final_stream_trial
      final_call_def settings_tuple_def Let_def)

lemma demo_fread [simp]: "fread demo_ext fp n = n"
  by (simp add: demo_ext_def)

lemma demo_trial_bytes:
  "trial_bytes demo_ext imagedata width height (f, s, c, m) =
     replicate (if f = 8 then (if s = 0 then 30 else if s = 3 then 40 else 25)
      else (if s = 0 then 25 else if s = 1 then 28 else 20)) (word_of_int s)"
  by (simp add: trial_bytes_def write_to_file_def demo_ext_def demo_length_def Let_def)

text \<open>
  Replaying the settings the search finds on the example library gives the 20 bytes of
  the winning trial.
\<close>

theorem replay_skips_search_witness:
  "save demo_ext demo_image (Enum_member COMPR_GREEDY) (Some [9, 8, 2, 248]) =
     (Inr (replicate 20 2, Some (9, 8, 2, 248)), [Write_to_file 9 8 2 248])
   \<and> trial_bytes demo_ext demo_image 1 1 (248, 2, 9, 8) = replicate 20 2"
  using replay_skips_search [where a = 9 and b = 8 and c = 2 and d = 248 and ext = demo_ext and imagedata = demo_image]
  by (simp add: demo_trial_bytes demo_image_def to_c_int_small Let_def)

text \<open>
  Level 0, memory level 10, strategy 7 and filter 1 are all outside the ranges libpng
  documents, and none is the sentinel. The call is not rejected: the encode runs with
  them and its bytes are returned.
\<close>

theorem replay_out_of_range_counterexample:
  "save demo_ext demo_image (Enum_member COMPR_GREEDY) (Some [0, 10, 7, 1]) =
     (Inr (replicate 20 7, Some (0, 10, 7, 1)), [Write_to_file 0 10 7 1])"
proof -
  have "replay_of_settings (Some [0, 10, 7, 1]) = Inr \<lparr>compr_lvl = 0, mem_lvl = 10, strat = 7, filters = 1\<rparr>"
    using replay_of_bytes [of 0 10 7 1 "[]"] by simp
  moreover have "writeable demo_image"
    by (simp add: demo_image_def)
  ultimately show ?thesis
    by (simp add: save_greedy_eq used_replay_def final_stream_trial final_call_def
        settings_tuple_def demo_trial_bytes Let_def)
qed

lemma byte_range: "0 \<le> v \<and> v \<le> 255 \<Longrightarrow> uint (word_of_int v :: byte) = v"
  by (simp add: uint_word_of_int take_bit_int_eq_self)

text \<open>
  C7 (as amended). \<open>save\<close> checks no setting against the ranges of the library. A
  four-tuple whose fields all fit an unsigned byte and whose level is not \<open>0xFF\<close> is used
  as it is for one encode; a tuple with a field below 0 or above 255 raises
  \<open>OverflowError\<close> when it is stored in the \<open>replay\<close> struct, before any call into the
  library. (The array is writable: a read-only one is turned away before the tuple is
  looked at.)
\<close>

theorem replay_settings_unchecked:
  assumes w: "writeable imagedata"
  shows "(if 0 \<le> c \<and> c \<le> 255 \<and> 0 \<le> m \<and> m \<le> 255 \<and> 0 \<le> s \<and> s \<le> 255 \<and> 0 \<le> f \<and> f \<le> 255
    then c \<noteq> 255 \<longrightarrow>
         snd (save ext imagedata (Enum_member COMPR_GREEDY) (Some [c, m, s, f])) = [Write_to_file c m s f]
    else save ext imagedata (Enum_member COMPR_GREEDY) (Some [c, m, s, f]) = (Inl OverflowError, []))"
proof (cases "0 \<le> c \<and> c \<le> 255 \<and> 0 \<le> m \<and> m \<le> 255 \<and> 0 \<le> s \<and> s \<le> 255 \<and> 0 \<le> f \<and> f \<le> 255")
  case True
  let ?a = "word_of_int c :: byte" and ?b = "word_of_int m :: byte"
  let ?c = "word_of_int s :: byte" and ?d = "word_of_int f :: byte"
  have u: "uint ?a = c" "uint ?b = m" "uint ?c = s" "uint ?d = f"
    using True by (simp_all add: byte_range)
  have r: "replay_of_settings (Some [c, m, s, f]) = Inr \<lparr>compr_lvl = ?a, mem_lvl = ?b, strat = ?c, filters = ?d\<rparr>"
    using replay_of_bytes [of ?a ?b ?c ?d "[]"] by (simp add: u)
  have "?a \<noteq> 0xFF" if "c \<noteq> 255"
  proof
    assume "?a = 0xFF"
    then have "uint ?a = uint (0xFF :: byte)" by simp
    then have "c = 255" using u(1) by simp
    with that show False by simp
  qed
  then show ?thesis using True
    by (simp add: save_greedy_eq [OF w r] used_replay_def final_call_def u Let_def)
next
  case False
  then have e: "replay_of_settings (Some [c, m, s, f]) = Inl OverflowError"
    by (auto simp: replay_of_settings_def settings_field_def tuple_item_def to_uint8_def)
  show ?thesis
    unfolding if_not_P [OF False] using w by (simp add: save_def e)
qed

text \<open>
  Level 1 with filter \<open>0x10\<close> is encoded; a memory level of 300 overflows.
\<close>

theorem replay_settings_unchecked_witness:
  "snd (save demo_ext demo_image (Enum_member COMPR_GREEDY) (Some [1, 1, 1, 16])) = [Write_to_file 1 1 1 16]
   \<and> save demo_ext demo_image (Enum_member COMPR_GREEDY) (Some [9, 300, 0, 8]) = (Inl OverflowError, [])"
  using replay_settings_unchecked [where c = 1 and m = 1 and s = 1 and f = 16
      and ext = demo_ext and imagedata = demo_image]
    replay_settings_unchecked [where c = 9 and m = 300 and s = 0 and f = 8
      and ext = demo_ext and imagedata = demo_image]
  by (simp add: demo_image_def)

lemma save_search_eq:
  "writeable imagedata \<Longrightarrow>
   save ext imagedata (Enum_member COMPR_GREEDY) None =
     (let width = to_c_int (shape1 imagedata); height = to_c_int (shape0 imagedata);
          (winners, trials) = optimize_greedy_iterate ext imagedata width height;
          fp = final_stream ext imagedata width height winners
      in (if fread ext fp (length fp) = length fp
          then Inr (fp, Some (settings_tuple winners))
          else Inl (MemoryError ''Copy to bytearray failed for PNG conversion.''),
          trials @ [final_call winners]))"
  by (simp add: save_greedy_eq [OF _ replay_of_None] used_replay_def Let_def split_beta)

text \<open>
  A level of \<open>0xFF\<close> does not keep the other three fields from being stored in the
  \<open>replay\<close> struct first: a memory level of 300 raises \<open>OverflowError\<close> there, and no
  search runs.
\<close>

theorem sentinel_overflow_counterexample:
  "save demo_ext demo_image (Enum_member COMPR_GREEDY) (Some [255, 300, 0, 8]) = (Inl OverflowError, [])"
  by (simp add: save_def demo_image_def replay_of_settings_def settings_field_def tuple_item_def
      to_uint8_def)

text \<open>
  C9 (as amended). With the greedy method, \<open>None\<close>, the empty tuple and every tuple of at
  least four fields that starts with the sentinel \<open>0xFF\<close> and whose next three fields
  fit an unsigned byte behave alike: on a writable array the search runs (its calls come
  first), the final encode uses the settings the search returns, and these are the
  settings reported; the values of the other fields have no effect. A four-tuple that
  starts with \<open>0xFF\<close> and has a field below 0 or above 255 raises \<open>OverflowError\<close>
  before any call into the library.
\<close>

theorem sentinel_runs_search:
  fixes b c d :: byte
  shows "save ext imagedata (Enum_member COMPR_GREEDY) (Some []) =
           save ext imagedata (Enum_member COMPR_GREEDY) None
       \<and> save ext imagedata (Enum_member COMPR_GREEDY) (Some (0xFF # uint b # uint c # uint d # rest)) =
           save ext imagedata (Enum_member COMPR_GREEDY) None
       \<and> (writeable imagedata \<longrightarrow>
          save ext imagedata (Enum_member COMPR_GREEDY) None =
          (let width = to_c_int (shape1 imagedata); height = to_c_int (shape0 imagedata);
               (winners, trials) = optimize_greedy_iterate ext imagedata width height;
               fp = final_stream ext imagedata width height winners
           in (if fread ext fp (length fp) = length fp
               then Inr (fp, Some (settings_tuple winners))
               else Inl (MemoryError ''Copy to bytearray failed for PNG conversion.''),
               trials @ [final_call winners])))
       \<and> (writeable imagedata
            \<and> \<not> (0 \<le> m \<and> m \<le> 255 \<and> 0 \<le> s \<and> s \<le> 255 \<and> 0 \<le> f \<and> f \<le> 255) \<longrightarrow>
          save ext imagedata (Enum_member COMPR_GREEDY) (Some [0xFF, m, s, f]) = (Inl OverflowError, []))"
proof -
  have r: "replay_of_settings (Some (0xFF # uint b # uint c # uint d # rest)) =
      Inr \<lparr>compr_lvl = 0xFF, mem_lvl = b, strat = c, filters = d\<rparr>"
    using replay_of_bytes [of 255 b c d rest] by simp
  have a: "save ext imagedata (Enum_member COMPR_GREEDY) (Some []) =
           save ext imagedata (Enum_member COMPR_GREEDY) None"
    by (cases "writeable imagedata") (simp_all add: save_def)
  have b: "save ext imagedata (Enum_member COMPR_GREEDY) (Some (0xFF # uint b # uint c # uint d # rest)) =
           save ext imagedata (Enum_member COMPR_GREEDY) None"
  proof (cases "writeable imagedata")
    case True
    then show ?thesis
      by (simp add: save_greedy_eq [OF True r] save_greedy_eq [OF True replay_of_None] used_replay_def)
  next
    case False
    then show ?thesis by (simp add: save_readonly)
  qed
  have c: "save ext imagedata (Enum_member COMPR_GREEDY) (Some [0xFF, m, s, f]) = (Inl OverflowError, [])"
    if "writeable imagedata"
      and "\<not> (0 \<le> m \<and> m \<le> 255 \<and> 0 \<le> s \<and> s \<le> 255 \<and> 0 \<le> f \<and> f \<le> 255)"
  proof -
    have "replay_of_settings (Some [0xFF, m, s, f]) = Inl OverflowError"
      using that(2)
      by (auto simp: replay_of_settings_def settings_field_def tuple_item_def to_uint8_def)
    then show ?thesis using that(1) by (simp add: save_def)
  qed
  from a b c save_search_eq [of imagedata ext] show ?thesis by blast
qed

lemma demo_search:
  "optimize_greedy_iterate demo_ext imagedata width height =
     (\<lparr>compr_lvl = 9, mem_lvl = 8, strat = 2, filters = 248\<rparr>, map call_of enumeration_order)"
proof -
  have sz: "to_c_int (length (trial_bytes demo_ext imagedata width height (f, s, c, m))) =
      (if f = 8 then (if s = 0 then 30 else if s = 3 then 40 else 25)
       else (if s = 0 then 25 else if s = 1 then 28 else 20))" for f s c m
    by (simp add: demo_trial_bytes to_c_int_small)
  have "chosen (fold (trial_of demo_ext imagedata width height) enumeration_order initial_vars) =
      \<lparr>compr_lvl = 9, mem_lvl = 8, strat = 2, filters = 248\<rparr>"
    unfolding enumeration_list
    by (simp add: trial_of_chosen trial_of_best sz initial_vars_def settings_of_def)
  then show ?thesis
    by (simp add: search_unrolled Let_def fold_trial_calls initial_vars_def)
qed

text \<open>
  The caller's memory level 1, strategy 3 and filter \<open>0x10\<close> are replaced by the winners.
\<close>

theorem sentinel_runs_search_witness:
  "save demo_ext demo_image (Enum_member COMPR_GREEDY) (Some [255, 1, 3, 16]) =
     (Inr (replicate 20 2, Some (9, 8, 2, 248)),
      [Write_to_file 9 8 0 8, Write_to_file 9 8 1 8, Write_to_file 9 8 2 8, Write_to_file 9 8 3 8,
       Write_to_file 9 8 0 248, Write_to_file 9 8 1 248, Write_to_file 9 8 2 248,
       Write_to_file 9 8 3 248, Write_to_file 9 8 2 248])"
  using sentinel_runs_search [where ext = demo_ext and imagedata = demo_image and b = 1 and c = 3
      and d = 16 and rest = "[]"]
  by (simp add: demo_search final_stream_trial demo_trial_bytes settings_tuple_def final_call_def
      enumeration_calls demo_image_def Let_def)

lemma optimize_default_eq:
  "optimize_default ext imagedata width height =
     (if fst (sizing_call ext imagedata width height) = 0
      then (Inl (MemoryError ''Could not allocate memory for PNG conversion.''),
            [Write_to_memory False])
      else if fst (write_call ext imagedata width height) = 0
      then (Inl (MemoryError ''Write to buffer failed for PNG conversion.''),
            [Write_to_memory False, Write_to_memory True])
      else (Inr (bytearray_filled (fst (snd (write_call ext imagedata width height)))
                   (fst (snd (write_call ext imagedata width height)))
                   (snd (snd (write_call ext imagedata width height)))),
            [Write_to_memory False, Write_to_memory True]))"
  by (simp add: optimize_default_def sizing_call_def write_call_def write_image_of_def Let_def
      split_beta)

lemma save_default_eq:
  "writeable imagedata \<Longrightarrow> compr_method \<noteq> Enum_member COMPR_GREEDY \<Longrightarrow>
   save ext imagedata compr_method compr_settings =
     (case optimize_default ext imagedata (to_c_int (shape1 imagedata)) (to_c_int (shape0 imagedata)) of
        (Inl e, made) \<Rightarrow> (Inl e, made)
      | (Inr outdata, made) \<Rightarrow> (Inr (outdata, None), made))"
  by (simp add: save_def Let_def)

lemma demo_sizing [simp]: "sizing_call demo_ext imagedata width height = (1, 4, [])"
  by (simp add: sizing_call_def demo_ext_def)

lemma demo_write [simp]: "write_call demo_ext imagedata width height = (1, 4, [137, 80, 78, 71])"
  by (simp add: write_call_def demo_ext_def)

lemma demo_save_default:
  "writeable imagedata \<Longrightarrow> m \<noteq> Enum_member COMPR_GREEDY \<Longrightarrow>
   save demo_ext imagedata m cs =
     (Inr ([137, 80, 78, 71], None), [Write_to_memory False, Write_to_memory True])"
  by (simp add: save_default_eq optimize_default_eq bytearray_filled_def)

lemma images_writeable [simp]:
  "writeable demo_image" "writeable empty_image" "writeable rgb_image"
  "\<not> writeable readonly_image"
  by (simp_all add: demo_image_def empty_image_def rgb_image_def readonly_image_def)

text \<open>
  The default method goes to the library twice, not once: it first has the image encoded
  without an output buffer, to learn the size, and then has it encoded again into a
  buffer of that size.
\<close>

theorem save_default_two_calls_counterexample:
  "snd (save demo_ext demo_image (Enum_member COMPR_DEFAULT) None) =
     [Write_to_memory False, Write_to_memory True]
   \<and> length (snd (save demo_ext demo_image (Enum_member COMPR_DEFAULT) None)) = 2"
  by (simp add: demo_save_default)

text \<open>
  C4 (as amended). On a writable array, \<open>save\<close> with the default method makes no
  parameterised encode. It calls \<^verbatim>\<open>png_image_write_to_memory\<close>, with the library's own
  settings, twice: the sizing call and, unless that fails, the write. When both succeed
  it returns the bytes the write left in the buffer, as many as the write reported,
  paired with \<open>None\<close>; when one fails it raises \<open>MemoryError\<close>.
\<close>

theorem save_default_single_encode:
  assumes "writeable imagedata"
  shows "save ext imagedata (Enum_member COMPR_DEFAULT) compr_settings =
     (let width = to_c_int (shape1 imagedata); height = to_c_int (shape0 imagedata);
          (sized, needed, untouched) = sizing_call ext imagedata width height;
          (written, write_image_size, outbuffer) = write_call ext imagedata width height
      in if sized = 0
         then (Inl (MemoryError ''Could not allocate memory for PNG conversion.''),
               [Write_to_memory False])
         else if written = 0
         then (Inl (MemoryError ''Write to buffer failed for PNG conversion.''),
               [Write_to_memory False, Write_to_memory True])
         else (Inr (bytearray_filled write_image_size write_image_size outbuffer, None),
               [Write_to_memory False, Write_to_memory True]))"
  using assms by (simp add: save_default_eq optimize_default_eq Let_def split_beta)

text \<open>
  On the example library the default encode returns the four bytes the library wrote; a
  library whose write fails gets \<open>MemoryError\<close>.
\<close>

theorem save_default_single_encode_witness:
  "save demo_ext demo_image (Enum_member COMPR_DEFAULT) None =
     (Inr ([137, 80, 78, 71], None), [Write_to_memory False, Write_to_memory True])
   \<and> save no_write_ext demo_image (Enum_member COMPR_DEFAULT) None =
     (Inl (MemoryError ''Write to buffer failed for PNG conversion.''),
      [Write_to_memory False, Write_to_memory True])"
proof -
  have "save demo_ext demo_image (Enum_member COMPR_DEFAULT) None =
     (Inr ([137, 80, 78, 71], None), [Write_to_memory False, Write_to_memory True])"
    using save_default_single_encode [of demo_image demo_ext None]
    by (simp add: bytearray_filled_def)
  moreover have "save no_write_ext demo_image (Enum_member COMPR_DEFAULT) None =
     (Inl (MemoryError ''Write to buffer failed for PNG conversion.''),
      [Write_to_memory False, Write_to_memory True])"
    using save_default_single_encode [of demo_image no_write_ext None]
    by (simp add: sizing_call_def write_call_def no_write_ext_def)
  ultimately show ?thesis by simp
qed

text \<open>
  C10. Every \<open>compr_method\<close> other than the enum member \<open>COMPR_GREEDY\<close>
  (\<open>COMPR_NONE\<close>, \<open>COMPR_AGGRESSIVE\<close>, an object that is no member at all) takes the
  branch of \<open>COMPR_DEFAULT\<close>: result and calls are those of
  \<open>save\<close> with \<open>COMPR_DEFAULT\<close>, and \<open>compr_settings\<close> is not looked at.
\<close>

theorem save_other_methods_default:
  "compr_method \<noteq> Enum_member COMPR_GREEDY \<Longrightarrow>
   save ext imagedata compr_method compr_settings =
     save ext imagedata (Enum_member COMPR_DEFAULT) None"
  by (cases "writeable imagedata") (simp_all add: save_def)

text \<open>
  \<open>COMPR_NONE\<close>, \<open>COMPR_AGGRESSIVE\<close> with settings, and the integer 2.
\<close>

theorem save_other_methods_default_witness:
  "save demo_ext demo_image (Enum_member COMPR_NONE) None =
     save demo_ext demo_image (Enum_member COMPR_DEFAULT) None
   \<and> save demo_ext demo_image (Enum_member COMPR_AGGRESSIVE) (Some [9, 8, 2, 248]) =
     save demo_ext demo_image (Enum_member COMPR_DEFAULT) None
   \<and> save demo_ext demo_image (Py_int 2) None =
     save demo_ext demo_image (Enum_member COMPR_DEFAULT) None
   \<and> save demo_ext demo_image (Enum_member COMPR_DEFAULT) None =
     (Inr ([137, 80, 78, 71], None), [Write_to_memory False, Write_to_memory True])"
  using save_other_methods_default [of "Enum_member COMPR_NONE" demo_ext demo_image None]
    save_other_methods_default [of "Enum_member COMPR_AGGRESSIVE" demo_ext demo_image "Some [9, 8, 2, 248]"]
    save_other_methods_default [of "Py_int 2" demo_ext demo_image None]
  by (simp add: demo_save_default)

text \<open>
  An array with no rows, and a one-pixel array with three channels (a buffer of 3 bytes,
  not 4): neither is turned away before the library is called. With the default method
  the sizing call is made on both, whatever the library then answers: bytes, which are
  returned, or a failure, which is raised as \<open>MemoryError\<close>.
\<close>

theorem save_invalid_raster_counterexample:
  "shape0 empty_image = 0
   \<and> take 1 (snd (save demo_ext empty_image (Enum_member COMPR_DEFAULT) None)) = [Write_to_memory False]
   \<and> save no_memory_ext empty_image (Enum_member COMPR_DEFAULT) None =
       (Inl (MemoryError ''Could not allocate memory for PNG conversion.''), [Write_to_memory False])
   \<and> length (buffer rgb_image) \<noteq> shape1 rgb_image * shape0 rgb_image * 4
   \<and> save demo_ext rgb_image (Enum_member COMPR_DEFAULT) None =
       (Inr ([137, 80, 78, 71], None), [Write_to_memory False, Write_to_memory True])"
proof -
  have "save no_memory_ext empty_image (Enum_member COMPR_DEFAULT) None =
       (Inl (MemoryError ''Could not allocate memory for PNG conversion.''), [Write_to_memory False])"
    by (simp add: save_default_eq optimize_default_eq sizing_call_def no_memory_ext_def)
  then show ?thesis
    by (simp add: demo_save_default) (simp add: empty_image_def rgb_image_def)
qed

text \<open>
  C6 (as amended). \<open>save\<close> checks neither the dimensions of the raster nor the length
  of its buffer; all it asks of the array is a writable buffer. For every writable
  raster, whatever its shape, a method other than greedy starts with the sizing call of
  the library, and the only error it can raise is the \<open>MemoryError\<close> of a failed library
  call. A read-only raster, whatever its shape, raises \<open>ValueError\<close> before any call.
\<close>

theorem save_raster_unchecked:
  "(writeable imagedata \<and> compr_method \<noteq> Enum_member COMPR_GREEDY \<longrightarrow>
      take 1 (snd (save ext imagedata compr_method compr_settings)) = [Write_to_memory False]
      \<and> (case fst (save ext imagedata compr_method compr_settings) of
            Inl e \<Rightarrow> is_MemoryError e | Inr r \<Rightarrow> True))
   \<and> (\<not> writeable imagedata \<longrightarrow>
      save ext imagedata compr_method compr_settings = (Inl ValueError, []))"
  by (simp add: save_default_eq optimize_default_eq is_MemoryError_def save_readonly)

text \<open>
  The empty array with the example library and with one whose sizing call fails, and the
  read-only pixel.
\<close>

theorem save_raster_unchecked_witness:
  "take 1 (snd (save demo_ext empty_image (Enum_member COMPR_DEFAULT) None)) = [Write_to_memory False]
   \<and> fst (save no_memory_ext empty_image (Enum_member COMPR_DEFAULT) None) =
       Inl (MemoryError ''Could not allocate memory for PNG conversion.'')
   \<and> save demo_ext readonly_image (Enum_member COMPR_DEFAULT) None = (Inl ValueError, [])"
proof -
  have e: "fst (save no_memory_ext empty_image (Enum_member COMPR_DEFAULT) None) =
       Inl (MemoryError ''Could not allocate memory for PNG conversion.'')"
    by (simp add: save_default_eq optimize_default_eq sizing_call_def no_memory_ext_def)
  show ?thesis
    using save_raster_unchecked [of empty_image "Enum_member COMPR_DEFAULT" demo_ext None]
      save_raster_unchecked [of readonly_image "Enum_member COMPR_DEFAULT" demo_ext None]
    by (simp add: e)
qed

text \<open>
  C8. When the library reports a failure, the encode raises and returns no bytes: a
  sizing call that answers 0 and a write call that answers 0 each make
  \<open>optimize_default\<close> raise \<open>MemoryError\<close>; a read-back whose count differs from the size
  of the stream makes \<open>optimize_greedy\<close> raise \<open>MemoryError\<close>; and \<open>save\<close> passes either
  error on to its caller unchanged (the array being writable, so that the encode is
  reached at all).
\<close>

theorem codec_failure_raises:
  "(fst (sizing_call ext imagedata width height) = 0 \<longrightarrow>
      fst (optimize_default ext imagedata width height) =
        Inl (MemoryError ''Could not allocate memory for PNG conversion.''))
   \<and> (fst (sizing_call ext imagedata width height) \<noteq> 0
        \<and> fst (write_call ext imagedata width height) = 0 \<longrightarrow>
      fst (optimize_default ext imagedata width height) =
        Inl (MemoryError ''Write to buffer failed for PNG conversion.''))
   \<and> (fread ext (final_stream ext imagedata width height (used_replay ext imagedata width height replay))
         (length (final_stream ext imagedata width height (used_replay ext imagedata width height replay)))
        \<noteq> length (final_stream ext imagedata width height (used_replay ext imagedata width height replay)) \<longrightarrow>
      fst (optimize_greedy ext imagedata width height replay) =
        Inl (MemoryError ''Copy to bytearray failed for PNG conversion.''))
   \<and> (writeable imagedata \<and> compr_method \<noteq> Enum_member COMPR_GREEDY
        \<and> fst (optimize_default ext imagedata (to_c_int (shape1 imagedata)) (to_c_int (shape0 imagedata))) = Inl e \<longrightarrow>
      fst (save ext imagedata compr_method compr_settings) = Inl e)
   \<and> (writeable imagedata \<and> replay_of_settings compr_settings = Inr replay
        \<and> fst (optimize_greedy ext imagedata (to_c_int (shape1 imagedata)) (to_c_int (shape0 imagedata)) replay) = Inl e \<longrightarrow>
      fst (save ext imagedata (Enum_member COMPR_GREEDY) compr_settings) = Inl e)"
proof -
  have a: "fst (sizing_call ext imagedata width height) = 0 \<Longrightarrow>
      fst (optimize_default ext imagedata width height) =
        Inl (MemoryError ''Could not allocate memory for PNG conversion.'')"
    by (simp add: optimize_default_eq)
  have b: "fst (sizing_call ext imagedata width height) \<noteq> 0
        \<and> fst (write_call ext imagedata width height) = 0 \<Longrightarrow>
      fst (optimize_default ext imagedata width height) =
        Inl (MemoryError ''Write to buffer failed for PNG conversion.'')"
    by (simp add: optimize_default_eq)
  have c: "fread ext (final_stream ext imagedata width height (used_replay ext imagedata width height replay))
         (length (final_stream ext imagedata width height (used_replay ext imagedata width height replay)))
        \<noteq> length (final_stream ext imagedata width height (used_replay ext imagedata width height replay)) \<Longrightarrow>
      fst (optimize_greedy ext imagedata width height replay) =
        Inl (MemoryError ''Copy to bytearray failed for PNG conversion.'')"
    by (simp add: optimize_greedy_eq Let_def)
  have d: "writeable imagedata \<and> compr_method \<noteq> Enum_member COMPR_GREEDY
        \<and> fst (optimize_default ext imagedata (to_c_int (shape1 imagedata)) (to_c_int (shape0 imagedata))) = Inl e \<Longrightarrow>
      fst (save ext imagedata compr_method compr_settings) = Inl e"
    by (auto simp: save_default_eq split: prod.splits sum.splits)
  have e: "writeable imagedata \<and> replay_of_settings compr_settings = Inr replay
        \<and> fst (optimize_greedy ext imagedata (to_c_int (shape1 imagedata)) (to_c_int (shape0 imagedata)) replay) = Inl e \<Longrightarrow>
      fst (save ext imagedata (Enum_member COMPR_GREEDY) compr_settings) = Inl e"
    by (auto simp: save_def Let_def split: prod.splits sum.splits)
  from a b c d e show ?thesis by blast
qed

text \<open>
  A library whose sizing call fails, one whose write call fails, and one whose read-back
  is one byte short.
\<close>

theorem codec_failure_raises_witness:
  "fst (save no_memory_ext demo_image (Enum_member COMPR_DEFAULT) None) =
     Inl (MemoryError ''Could not allocate memory for PNG conversion.'')
   \<and> fst (save no_write_ext demo_image (Enum_member COMPR_DEFAULT) None) =
     Inl (MemoryError ''Write to buffer failed for PNG conversion.'')
   \<and> fst (save short_read_ext demo_image (Enum_member COMPR_GREEDY) (Some [9, 8, 2, 248])) =
     Inl (MemoryError ''Copy to bytearray failed for PNG conversion.'')"
proof -
  let ?w = "to_c_int (shape1 demo_image)" and ?h = "to_c_int (shape0 demo_image)"
  let ?r = "\<lparr>compr_lvl = 9, mem_lvl = 8, strat = 2, filters = 248\<rparr>"
  have s1: "fst (sizing_call no_memory_ext demo_image ?w ?h) = 0"
    by (simp add: sizing_call_def no_memory_ext_def)
  have s2: "fst (sizing_call no_write_ext demo_image ?w ?h) \<noteq> 0
      \<and> fst (write_call no_write_ext demo_image ?w ?h) = 0"
    by (simp add: sizing_call_def write_call_def no_write_ext_def)
  have r: "replay_of_settings (Some [9, 8, 2, 248]) = Inr ?r"
    using replay_of_bytes [of 9 8 2 248 "[]"] by simp
  have fp: "final_stream short_read_ext demo_image ?w ?h (used_replay short_read_ext demo_image ?w ?h ?r)
      = replicate 20 2"
    by (simp add: used_replay_def final_stream_def write_to_file_def short_read_ext_def
        demo_ext_def demo_length_def Let_def)
  have s3: "fread short_read_ext (replicate 20 2) (length (replicate 20 (2::byte)))
      \<noteq> length (replicate 20 (2::byte))"
    by (simp add: short_read_ext_def)
  note t1 = codec_failure_raises [where ext = no_memory_ext and imagedata = demo_image
      and width = ?w and height = ?h and compr_method = "Enum_member COMPR_DEFAULT"
      and compr_settings = None
      and e = "MemoryError ''Could not allocate memory for PNG conversion.''"]
  note t2 = codec_failure_raises [where ext = no_write_ext and imagedata = demo_image
      and width = ?w and height = ?h and compr_method = "Enum_member COMPR_DEFAULT"
      and compr_settings = None
      and e = "MemoryError ''Write to buffer failed for PNG conversion.''"]
  note t3 = codec_failure_raises [where ext = short_read_ext and imagedata = demo_image
      and width = ?w and height = ?h and replay = ?r
      and compr_settings = "Some [9, 8, 2, 248]"
      and e = "MemoryError ''Copy to bytearray failed for PNG conversion.''"]
  have "fst (save no_memory_ext demo_image (Enum_member COMPR_DEFAULT) None) =
     Inl (MemoryError ''Could not allocate memory for PNG conversion.'')"
    using t1 s1 by simp
  moreover have "fst (save no_write_ext demo_image (Enum_member COMPR_DEFAULT) None) =
     Inl (MemoryError ''Write to buffer failed for PNG conversion.'')"
    using t2 s2 by simp
  moreover have "fst (save short_read_ext demo_image (Enum_member COMPR_GREEDY) (Some [9, 8, 2, 248])) =
     Inl (MemoryError ''Copy to bytearray failed for PNG conversion.'')"
    using t3 r s3 by (simp add: fp)
  ultimately show ?thesis by blast
qed

text \<open>
  The run of trials depends on the library only through the streams of the candidates
  it tries.
\<close>

lemma fold_trial_agree:
  assumes "\<forall>p \<in> set ps. trial_bytes ext1 imagedata width height p = trial_bytes ext2 imagedata width height p"
    and "chosen v1 = chosen v2" and "best_filesize v1 = best_filesize v2" and "calls v1 = calls v2"
  shows "chosen (fold (trial_of ext1 imagedata width height) ps v1)
           = chosen (fold (trial_of ext2 imagedata width height) ps v2)
       \<and> calls (fold (trial_of ext1 imagedata width height) ps v1)
           = calls (fold (trial_of ext2 imagedata width height) ps v2)"
  using assms
proof (induction ps arbitrary: v1 v2)
  case Nil
  then show ?case by simp
next
  case (Cons p ps)
  have same: "trial_bytes ext1 imagedata width height p = trial_bytes ext2 imagedata width height p"
    using Cons.prems(1) by simp
  have "chosen (trial_of ext1 imagedata width height p v1) = chosen (trial_of ext2 imagedata width height p v2)"
    by (simp add: trial_of_chosen same Cons.prems)
  moreover have "best_filesize (trial_of ext1 imagedata width height p v1)
      = best_filesize (trial_of ext2 imagedata width height p v2)"
    by (simp add: trial_of_best same Cons.prems)
  moreover have "calls (trial_of ext1 imagedata width height p v1)
      = calls (trial_of ext2 imagedata width height p v2)"
    by (simp add: trial_of_calls Cons.prems)
  moreover have "\<forall>q \<in> set ps. trial_bytes ext1 imagedata width height q = trial_bytes ext2 imagedata width height q"
    using Cons.prems(1) by simp
  ultimately show ?case
    using Cons.IH by simp
qed

lemma candidate_of_settings:
  "p \<in> set enumeration_order \<Longrightarrow> candidate_of (settings_of p) = p"
  unfolding enumeration_list by (auto simp: candidate_of_def settings_of_def)

lemma winners_candidate:
  "candidate_of (fst (optimize_greedy_iterate ext imagedata width height))
     \<in> set enumeration_order \<union> {(255, 255, 255, 255)}"
proof -
  define w where "w = fold (trial_of ext imagedata width height) enumeration_order initial_vars"
  have res: "fst (optimize_greedy_iterate ext imagedata width height) = chosen w"
    by (simp add: search_unrolled w_def Let_def)
  from fold_trial_first_min [OF refl w_def]
  consider "chosen w = chosen initial_vars"
    | i where "i < length enumeration_order" "chosen w = settings_of (enumeration_order ! i)"
    by blast
  then show ?thesis
  proof cases
    case 1
    then show ?thesis
      by (simp add: res chosen_def initial_vars_def candidate_of_def)
  next
    case 2
    then have "candidate_of (chosen w) = enumeration_order ! i"
      by (simp add: candidate_of_settings)
    then show ?thesis using 2(1) by (simp add: res)
  qed
qed

text \<open>
  C5. The full greedy search is deterministic. Its outcome is fixed by the raster and by
  what the library answers on that raster: two runs in which the library writes the same
  stream for each setting the search can use (the eight candidates, and the four \<open>0xFF\<close>
  the search starts from) and reads back alike find the same winning settings, make the
  same calls and return the same bytes. Nothing else enters: every local is initialised
  before the loops and the module keeps no state between calls.
\<close>

theorem greedy_search_deterministic:
  assumes same: "\<forall>p \<in> set enumeration_order \<union> {(255, 255, 255, 255)}.
      trial_bytes ext1 imagedata (to_c_int (shape1 imagedata)) (to_c_int (shape0 imagedata)) p
      = trial_bytes ext2 imagedata (to_c_int (shape1 imagedata)) (to_c_int (shape0 imagedata)) p"
    and read: "fread ext1 = fread ext2"
  shows "optimize_greedy_iterate ext1 imagedata (to_c_int (shape1 imagedata)) (to_c_int (shape0 imagedata))
       = optimize_greedy_iterate ext2 imagedata (to_c_int (shape1 imagedata)) (to_c_int (shape0 imagedata))
     \<and> save ext1 imagedata (Enum_member COMPR_GREEDY) None
       = save ext2 imagedata (Enum_member COMPR_GREEDY) None"
proof -
  let ?w = "to_c_int (shape1 imagedata)" and ?h = "to_c_int (shape0 imagedata)"
  have "\<forall>p \<in> set enumeration_order. trial_bytes ext1 imagedata ?w ?h p = trial_bytes ext2 imagedata ?w ?h p"
    using same by simp
  from fold_trial_agree [OF this refl refl refl, of initial_vars]
  have search: "optimize_greedy_iterate ext1 imagedata ?w ?h = optimize_greedy_iterate ext2 imagedata ?w ?h"
    by (simp add: search_unrolled Let_def)
  let ?u = "fst (optimize_greedy_iterate ext2 imagedata ?w ?h)"
  have "trial_bytes ext1 imagedata ?w ?h (candidate_of ?u) = trial_bytes ext2 imagedata ?w ?h (candidate_of ?u)"
    using same winners_candidate [of ext2 imagedata ?w ?h] by blast
  then have stream: "final_stream ext1 imagedata ?w ?h ?u = final_stream ext2 imagedata ?w ?h ?u"
    by (simp add: final_stream_trial candidate_of_def)
  have "save ext1 imagedata (Enum_member COMPR_GREEDY) None
       = save ext2 imagedata (Enum_member COMPR_GREEDY) None"
  proof (cases "writeable imagedata")
    case True
    with stream show ?thesis
      by (simp add: save_search_eq search read Let_def split_beta)
  next
    case False
    then show ?thesis by (simp add: save_readonly)
  qed
  with search show ?thesis by simp
qed

text \<open>
  Two libraries that differ on compression level 1, which the search never tries.
\<close>

theorem greedy_search_deterministic_witness:
  "trial_bytes demo_ext demo_image 1 1 (8, 0, 1, 8) \<noteq> trial_bytes other_ext demo_image 1 1 (8, 0, 1, 8)
   \<and> save demo_ext demo_image (Enum_member COMPR_GREEDY) None
       = save other_ext demo_image (Enum_member COMPR_GREEDY) None
   \<and> save demo_ext demo_image (Enum_member COMPR_GREEDY) None =
       (Inr (replicate 20 2, Some (9, 8, 2, 248)),
        [Write_to_file 9 8 0 8, Write_to_file 9 8 1 8, Write_to_file 9 8 2 8, Write_to_file 9 8 3 8,
         Write_to_file 9 8 0 248, Write_to_file 9 8 1 248, Write_to_file 9 8 2 248,
         Write_to_file 9 8 3 248, Write_to_file 9 8 2 248])"
proof -
  have differ: "trial_bytes demo_ext demo_image 1 1 (8, 0, 1, 8) \<noteq> trial_bytes other_ext demo_image 1 1 (8, 0, 1, 8)"
    by (simp add: trial_bytes_def write_to_file_def other_ext_def demo_ext_def demo_length_def Let_def)
  have agree: "\<forall>p \<in> set enumeration_order \<union> {(255, 255, 255, 255)}.
      trial_bytes demo_ext demo_image (to_c_int (shape1 demo_image)) (to_c_int (shape0 demo_image)) p
      = trial_bytes other_ext demo_image (to_c_int (shape1 demo_image)) (to_c_int (shape0 demo_image)) p"
    unfolding enumeration_list
    by (simp add: trial_bytes_def write_to_file_def other_ext_def Let_def)
  have read: "fread demo_ext = fread other_ext"
    by (simp add: other_ext_def)
  have result: "save demo_ext demo_image (Enum_member COMPR_GREEDY) None =
       (Inr (replicate 20 2, Some (9, 8, 2, 248)),
        [Write_to_file 9 8 0 8, Write_to_file 9 8 1 8, Write_to_file 9 8 2 8, Write_to_file 9 8 3 8,
         Write_to_file 9 8 0 248, Write_to_file 9 8 1 248, Write_to_file 9 8 2 248,
         Write_to_file 9 8 3 248, Write_to_file 9 8 2 248])"
    by (simp add: save_search_eq demo_search final_stream_trial demo_trial_bytes settings_tuple_def
        final_call_def enumeration_calls Let_def)
  from greedy_search_deterministic [OF agree read] differ result show ?thesis by simp
qed

end
